theory Spec2Isabelle
  imports Main
begin

section \<open>Characters and strings\<close>

text \<open>
  The program is \<^verbatim>\<open>src/tool/backend/app.py\<close>. Its strings are Python \<^verbatim>\<open>str\<close> values. A
  character of the model is a \<^typ>\<open>char\<close>, read as the code point \<open>of_char c\<close>, so the
  model covers the texts whose code points are below 256. The character classes below
  are those of Python 3 on that range: \<^verbatim>\<open>str.isspace\<close> (used by \<^verbatim>\<open>str.strip()\<close> and by
  \<^verbatim>\<open>\s\<close>), the line boundaries of \<^verbatim>\<open>str.splitlines\<close>, the decimal digits of \<^verbatim>\<open>\d\<close>, the
  word characters of \<^verbatim>\<open>\w\<close>, and \<^verbatim>\<open>str.lower\<close>.
\<close>

definition code :: "char \<Rightarrow> nat" where
  "code c = of_char c"

definition is_space :: "char \<Rightarrow> bool" where
  "is_space c = (let n = code c in
     (9 \<le> n \<and> n \<le> 13) \<or> (28 \<le> n \<and> n \<le> 32) \<or> n = 133 \<or> n = 160)"

definition is_linebreak :: "char \<Rightarrow> bool" where
  "is_linebreak c = (let n = code c in
     (10 \<le> n \<and> n \<le> 13) \<or> (28 \<le> n \<and> n \<le> 30) \<or> n = 133)"

definition is_digit :: "char \<Rightarrow> bool" where
  "is_digit c = (let n = code c in 48 \<le> n \<and> n \<le> 57)"

definition is_ascii_lower :: "char \<Rightarrow> bool" where
  "is_ascii_lower c = (let n = code c in 97 \<le> n \<and> n \<le> 122)"

definition is_ascii_upper :: "char \<Rightarrow> bool" where
  "is_ascii_upper c = (let n = code c in 65 \<le> n \<and> n \<le> 90)"

text \<open>
  \<^verbatim>\<open>\w\<close> is \<^verbatim>\<open>str.isalnum\<close> or the underscore. Below 256 the alphanumeric characters
  are the ASCII letters and digits, the ordinal indicators (170, 186), the micro sign
  (181), the superscript digits (178, 179, 185), the vulgar fractions (188 to 190) and
  the letters 192 to 255 except the multiplication and division signs (215, 247).
\<close>

definition is_word :: "char \<Rightarrow> bool" where
  "is_word c = (let n = code c in
     is_digit c \<or> is_ascii_lower c \<or> is_ascii_upper c \<or> n = 95 \<or>
     n = 170 \<or> n = 178 \<or> n = 179 \<or> n = 181 \<or> n = 185 \<or> n = 186 \<or>
     (188 \<le> n \<and> n \<le> 190) \<or> (192 \<le> n \<and> n \<noteq> 215 \<and> n \<noteq> 247))"

text \<open>
  \<^verbatim>\<open>str.lower\<close>, one character at a time: the ASCII capitals and the capitals 192 to 222
  (without the multiplication sign 215) move up by 32, every other character stays.
\<close>

definition lower_char :: "char \<Rightarrow> char" where
  "lower_char c = (let n = code c in
     if is_ascii_upper c \<or> (192 \<le> n \<and> n \<le> 222 \<and> n \<noteq> 215) then char_of (n + 32) else c)"

definition lower :: "string \<Rightarrow> string" where
  "lower s = map lower_char s"

text \<open>\<^verbatim>\<open>s.startswith(p)\<close> and \<^verbatim>\<open>p in s\<close>.\<close>

fun startswith :: "string \<Rightarrow> string \<Rightarrow> bool" where
  "startswith s [] = True"
| "startswith [] (p # ps) = False"
| "startswith (c # cs) (p # ps) = (c = p \<and> startswith cs ps)"

fun contains :: "string \<Rightarrow> string \<Rightarrow> bool" where
  "contains p [] = (p = [])"
| "contains p (c # cs) = (startswith (c # cs) p \<or> contains p cs)"

text \<open>
  \<^verbatim>\<open>s.strip(chars)\<close> removes the characters of \<^verbatim>\<open>chars\<close> from both ends; \<^verbatim>\<open>s.strip()\<close>
  removes white space from both ends.
\<close>

definition strip_where :: "(char \<Rightarrow> bool) \<Rightarrow> string \<Rightarrow> string" where
  "strip_where p s = rev (dropWhile p (rev (dropWhile p s)))"

definition strip_chars :: "string \<Rightarrow> string \<Rightarrow> string" where
  "strip_chars chars s = strip_where (\<lambda>c. List.member chars c) s"

definition strip :: "string \<Rightarrow> string" where
  "strip s = strip_where is_space s"

text \<open>
  \<^verbatim>\<open>s.splitlines()\<close>: the text is cut at every line boundary, \<^verbatim>\<open>\r\n\<close> counting as one, the
  boundaries are dropped, and a text that ends with a boundary has no empty last line.
  The first argument holds the current line, reversed.
\<close>

fun splitlines_from :: "string \<Rightarrow> string \<Rightarrow> string list" where
  "splitlines_from cur [] = (if cur = [] then [] else [rev cur])"
| "splitlines_from cur (c # cs) =
     (if c = CHR 0x0D \<and> cs \<noteq> [] \<and> hd cs = CHR 0x0A then rev cur # splitlines_from [] (tl cs)
      else if is_linebreak c then rev cur # splitlines_from [] cs
      else splitlines_from (c # cur) cs)"

definition splitlines :: "string \<Rightarrow> string list" where
  "splitlines s = splitlines_from [] s"

text \<open>\<^verbatim>\<open>sep.join(xs)\<close>.\<close>

fun join :: "string \<Rightarrow> string list \<Rightarrow> string" where
  "join sep [] = []"
| "join sep [x] = x"
| "join sep (x # y # ys) = x @ sep @ join sep (y # ys)"

text \<open>\<^verbatim>\<open>str(n)\<close> for a natural number, as the status code appears in an error message.\<close>

fun str_of_nat :: "nat \<Rightarrow> string" where
  "str_of_nat n =
     (if n < 10 then [''0123456789'' ! n]
      else str_of_nat (n div 10) @ [''0123456789'' ! (n mod 10)])"

section \<open>The camel-case repair\<close>

text \<open>
  Line 81: \<^verbatim>\<open>re.sub(r'([a-z])([A-Z])', r'\1 \2', text)\<close>. The pattern is scanned from the
  left; at a lower-case ASCII letter followed by an upper-case ASCII letter the two
  characters are replaced by themselves with a space between, and the scan goes on
  behind the pair (matches do not overlap).
\<close>

fun camel_case :: "string \<Rightarrow> string" where
  "camel_case (a # b # cs) =
     (if is_ascii_lower a \<and> is_ascii_upper b then a # CHR '' '' # b # camel_case cs
      else a # camel_case (b # cs))"
| "camel_case cs = cs"

text \<open>A text has a transition when a lower-case ASCII letter stands before an upper-case one.\<close>

fun has_transition :: "string \<Rightarrow> bool" where
  "has_transition (a # b # cs) =
     ((is_ascii_lower a \<and> is_ascii_upper b) \<or> has_transition (b # cs))"
| "has_transition cs = False"

section \<open>Prompt composer and response parser\<close>

text \<open>
  Four characters in the literals of the source lie above 255: the cross mark U+274C of
  the error reply, the quotation marks U+201C and U+201D of the first two prompts and
  the apostrophe U+2019 of one error message. Each is written as the three bytes of its
  UTF-8 form. None of these bytes is white space, a line boundary, a dash, a digit or
  an ASCII letter, so the parsers below treat the three bytes as Python treats the
  one character.
\<close>

definition cross_mark :: string where
  "cross_mark = [CHR 0xE2, CHR 0x9D, CHR 0x8C]"

definition ldquo :: string where
  "ldquo = [CHR 0xE2, CHR 0x80, CHR 0x9C]"

definition rdquo :: string where
  "rdquo = [CHR 0xE2, CHR 0x80, CHR 0x9D]"

definition rsquo :: string where
  "rsquo = [CHR 0xE2, CHR 0x80, CHR 0x99]"

text \<open>
  The collaborator: \<^verbatim>\<open>model.generate_content(prompt)\<close> followed by \<^verbatim>\<open>response.text\<close>. For a
  prompt it either raises an exception \<open>e\<close>, given by \<^verbatim>\<open>str(e)\<close> (\<open>Inl\<close>), or returns the
  reply text (\<open>Inr\<close>). The three prompts of one request differ, so a function of the
  prompt describes every behaviour of the collaborator within a request. The calls
  made are recorded: every function that reaches the collaborator takes the list of
  prompts sent so far and returns it extended.
\<close>

type_synonym gemini = "string \<Rightarrow> string + string"

definition ask_gemini :: "gemini \<Rightarrow> string \<Rightarrow> string list \<Rightarrow> string \<times> string list" where
  "ask_gemini gen prompt sent =
     (case gen prompt of
        Inr text \<Rightarrow> (text, sent @ [prompt])
      | Inl e \<Rightarrow> (cross_mark @ '' Gemini API Error: '' @ e, sent @ [prompt]))"

text \<open>
  Line 118: \<^verbatim>\<open>re.search(r"Score\s*:\s*(\d{1,3})\s*/\s*100", ln, re.IGNORECASE)\<close>.
  \<open>match_score_at\<close> is the match anchored at the head of its argument and returns
  \<^verbatim>\<open>int(m.group(1))\<close>. Every greedy quantifier of the pattern is followed by a
  character outside its class, so it takes the whole run and giving characters back
  never helps: the digits matched are the whole run of digits, which must have one to
  three of them. \<open>search_score\<close> tries every start position from the left.
\<close>

fun ci_startswith :: "string \<Rightarrow> string \<Rightarrow> bool" where
  "ci_startswith s [] = True"
| "ci_startswith [] (p # ps) = False"
| "ci_startswith (c # cs) (p # ps) = (lower_char c = lower_char p \<and> ci_startswith cs ps)"

fun digits_value :: "nat \<Rightarrow> string \<Rightarrow> nat" where
  "digits_value acc [] = acc"
| "digits_value acc (c # cs) = digits_value (10 * acc + (code c - 48)) cs"

definition match_score_at :: "string \<Rightarrow> nat option" where
  "match_score_at s =
     (if ci_startswith s ''Score'' then
        (case dropWhile is_space (drop 5 s) of
           [] \<Rightarrow> None
         | c # r1 \<Rightarrow>
             if c = CHR '':'' then
               (let r2 = dropWhile is_space r1;
                    ds = takeWhile is_digit r2;
                    r3 = dropWhile is_digit r2
                in if 1 \<le> length ds \<and> length ds \<le> 3 then
                     (case dropWhile is_space r3 of
                        [] \<Rightarrow> None
                      | d # r4 \<Rightarrow>
                          if d = CHR ''/'' \<and> startswith (dropWhile is_space r4) ''100''
                          then Some (digits_value 0 ds) else None)
                   else None)
             else None)
      else None)"

fun search_score :: "string \<Rightarrow> nat option" where
  "search_score [] = match_score_at []"
| "search_score (c # cs) =
     (case match_score_at (c # cs) of Some n \<Rightarrow> Some n | None \<Rightarrow> search_score cs)"

text \<open>Lines 117 to 121: the loop that stops at the first line with a match.\<close>

fun score_loop :: "int \<Rightarrow> string list \<Rightarrow> int" where
  "score_loop score [] = score"
| "score_loop score (ln # lns) =
     (case search_score ln of Some n \<Rightarrow> int n | None \<Rightarrow> score_loop score lns)"

text \<open>Lines 122 to 124: the loop that appends one suggestion for each dash line.\<close>

fun suggestions_loop :: "string list \<Rightarrow> string list \<Rightarrow> string list" where
  "suggestions_loop suggestions [] = suggestions"
| "suggestions_loop suggestions (ln # lns) =
     (if startswith (strip ln) ''-''
      then suggestions_loop (suggestions @ [strip (strip_chars ''- '' ln)]) lns
      else suggestions_loop suggestions lns)"

definition score_prompt :: "string \<Rightarrow> string" where
  "score_prompt text =
     ''You are an expert resume screener. Return exactly:\<newline>'' @
     ''1. A single line '' @ ldquo @ ''Score: XX/100'' @ rdquo @ '' (give some ample marks)\<newline>'' @
     ''2. Up to 5 bullet-point suggestions prefixed with '' @ ldquo @ ''- '' @ rdquo @
     ''(Give it as line statements without bold fonts)\<newline>\<newline>'' @
     take 3000 text"

definition score_and_suggest ::
  "gemini \<Rightarrow> string \<Rightarrow> string list \<Rightarrow> (int \<times> string list) \<times> string list" where
  "score_and_suggest gen text sent =
     (let (raw, sent') = ask_gemini gen (score_prompt text) sent;
          lns = splitlines raw;
          score = score_loop 0 lns;
          suggestions = suggestions_loop [] lns
      in ((score, take 5 suggestions), sent'))"

definition grammar_prompt :: "string \<Rightarrow> string" where
  "grammar_prompt text =
     ''List grammatical and spelling errors in the following resume text. '' @
     ''Cross check before listing the errors. Please don't give capitalization issues '' @
     ''and inconsistency errors, kindly ignore them since you don't know to identify it '' @
     ''perfectly  example: Key Achievement: should be Key Achievement- this was the silly '' @
     ''error you made on testing avaoid them please. Also no need to give useless or '' @
     ''errors without much impact when there is not big errors in the resume.\<newline>'' @
     ''Output each error as a separate line prefixed with '' @ ldquo @ ''- '' @ rdquo @
     ''.\<newline>\<newline>\<newline>'' @
     take 3000 text"

definition grammar_errors :: "gemini \<Rightarrow> string \<Rightarrow> string list \<Rightarrow> string list \<times> string list" where
  "grammar_errors gen text sent =
     (let (raw, sent') = ask_gemini gen (grammar_prompt text) sent
      in (map (\<lambda>ln. strip (strip_chars ''- '' ln))
            (filter (\<lambda>ln. startswith (strip ln) ''-'') (splitlines raw)), sent'))"

definition jobs_prompt :: "string \<Rightarrow> string" where
  "jobs_prompt text =
     ''You are a career guidance expert. Based on the resume text below, suggest:\<newline>'' @
     ''1. 3-5 suitable job roles (in bullet points prefixed by '- ')\<newline>'' @
     ''2. The field/industry the candidate is most suited for\<newline>'' @
     ''Be precise and professional. Avoid unnecessary sentences.\<newline>\<newline>'' @
     take 3000 text"

text \<open>
  Lines 149 to 153: one loop over the reply lines that carries both the list of job
  roles and the field.
\<close>

fun jobs_loop :: "string list \<times> string \<Rightarrow> string list \<Rightarrow> string list \<times> string" where
  "jobs_loop (job_roles, field) [] = (job_roles, field)"
| "jobs_loop (job_roles, field) (ln # lns) =
     (if startswith (strip ln) ''-''
      then jobs_loop (job_roles @ [strip (strip_chars ''- '' ln)], field) lns
      else if contains ''industry'' (lower ln) \<or> contains ''field'' (lower ln)
      then jobs_loop (job_roles, strip ln) lns
      else jobs_loop (job_roles, field) lns)"

definition recommend_jobs ::
  "gemini \<Rightarrow> string \<Rightarrow> string list \<Rightarrow> (string list \<times> string) \<times> string list" where
  "recommend_jobs gen text sent =
     (let (raw, sent') = ask_gemini gen (jobs_prompt text) sent;
          (job_roles, field) = jobs_loop ([], ''Not identified'') (splitlines raw)
      in ((take 5 job_roles, field), sent'))"

text \<open>Two collaborators for the examples: one always replies \<open>r\<close>, one always raises \<open>e\<close>.\<close>

definition reply_with :: "string \<Rightarrow> gemini" where
  "reply_with r = (\<lambda>prompt. Inr r)"

definition raise_with :: "string \<Rightarrow> gemini" where
  "raise_with e = (\<lambda>prompt. Inl e)"

section \<open>Exceptions\<close>

text \<open>
  The exceptions of a request: \<^verbatim>\<open>abort(code, description)\<close> raises an \<open>HTTPException\<close>;
  \<^verbatim>\<open>path.rsplit('.', 1)[1]\<close> raises \<open>IndexError\<close> on a path with no dot; a parsing library
  raises an exception of its own, given by its text. \<open>str_exc\<close> is \<^verbatim>\<open>str(e)\<close>; for an
  \<open>HTTPException\<close> it is the code, the name of the code, a colon and the description.
  \<open>http_name\<close> holds the names of the two codes the program aborts with; the name
  \<open>Unknown Error\<close> stands in for the name of any other code.
\<close>

datatype exc = HTTPException nat string | IndexError | LibraryError string

definition http_name :: "nat \<Rightarrow> string" where
  "http_name c =
     (if c = 400 then ''Bad Request'' else if c = 502 then ''Bad Gateway''
      else ''Unknown Error'')"

fun str_exc :: "exc \<Rightarrow> string" where
  "str_exc (HTTPException c description) = str_of_nat c @ '' '' @ http_name c @ '': '' @ description"
| "str_exc IndexError = ''list index out of range''"
| "str_exc (LibraryError e) = e"

section \<open>Extraction of text and photo flag\<close>

text \<open>
  The three parsing libraries are parameters. Each takes the path and either raises
  (\<open>Inl\<close>, with the exception's text) or returns what the code reads from its result:
  for \<^verbatim>\<open>pdfplumber.open\<close> the pages, each with the result of \<^verbatim>\<open>extract_text()\<close> (\<open>None\<close>
  or a text) and whether \<^verbatim>\<open>page.images\<close> is non-empty; for \<^verbatim>\<open>docx.Document\<close> the
  paragraph texts and the number of inline shapes; for \<^verbatim>\<open>textract.process\<close> the decoded
  text.
\<close>

record libraries =
  pdfplumber_open :: "string \<Rightarrow> string + (string option \<times> bool) list"
  docx_Document :: "string \<Rightarrow> string + string list \<times> nat"
  textract_process :: "string \<Rightarrow> string + string"

text \<open>Line 61: \<^verbatim>\<open>path.rsplit('.', 1)[1].lower()\<close>.\<close>

definition path_ext :: "string \<Rightarrow> exc + string" where
  "path_ext path =
     (if List.member path (CHR ''.'')
      then Inr (lower (rev (takeWhile (\<lambda>c. c \<noteq> CHR ''.'') (rev path))))
      else Inl IndexError)"

text \<open>Lines 68 to 71: the loop over the pages that stops at the first page with an image.\<close>

fun images_loop :: "bool \<Rightarrow> (string option \<times> bool) list \<Rightarrow> bool" where
  "images_loop has_photo [] = has_photo"
| "images_loop has_photo (page # pages) =
     (if snd page then True else images_loop has_photo pages)"

definition extract_text_and_photo :: "libraries \<Rightarrow> string \<Rightarrow> exc + string \<times> bool" where
  "extract_text_and_photo libs path =
     (case path_ext path of
        Inl e \<Rightarrow> Inl e
      | Inr ext \<Rightarrow>
          (case
             (if ext = ''pdf'' then
                (case pdfplumber_open libs path of
                   Inl e \<Rightarrow> Inl (LibraryError e)
                 | Inr pages \<Rightarrow>
                     Inr (join ''\<newline>'' (map (\<lambda>p. case fst p of None \<Rightarrow> [] | Some t \<Rightarrow> t) pages),
                          images_loop False pages))
              else if ext = ''docx'' then
                (case docx_Document libs path of
                   Inl e \<Rightarrow> Inl (LibraryError e)
                 | Inr (paragraphs, inline_shapes) \<Rightarrow>
                     Inr (join ''\<newline>'' paragraphs, 0 < inline_shapes))
              else
                (case textract_process libs path of
                   Inl e \<Rightarrow> Inl (LibraryError e)
                 | Inr text \<Rightarrow> Inr (text, False)))
           of
             Inl e \<Rightarrow> Inl e
           | Inr (text, has_photo) \<Rightarrow> Inr (camel_case text, has_photo)))"

text \<open>
  A path at which there is no file: each of the three libraries raises when it is asked
  to open it.
\<close>

definition no_file_at :: "libraries \<Rightarrow> string \<Rightarrow> bool" where
  "no_file_at libs path =
     (isl (pdfplumber_open libs path) \<and> isl (docx_Document libs path) \<and>
      isl (textract_process libs path))"

section \<open>Heuristic classifier\<close>

text \<open>
  \<^verbatim>\<open>re.search\<close> for the patterns of \<open>detect_criteria\<close>, which only asks whether a match
  exists. \<open>search_re m\<close> tries the anchored matcher \<open>m\<close> at every position from the left;
  the matcher sees the character before the position (for \<^verbatim>\<open>\b\<close>) and the rest of the
  text.
\<close>

fun search_re :: "(char option \<Rightarrow> string \<Rightarrow> bool) \<Rightarrow> char option \<Rightarrow> string \<Rightarrow> bool" where
  "search_re m prev [] = m prev []"
| "search_re m prev (c # cs) = (m prev (c # cs) \<or> search_re m (Some c) cs)"

text \<open>\<^verbatim>\<open>\b\<close>: exactly one of the characters on the two sides is a word character.\<close>

definition boundary :: "char option \<Rightarrow> string \<Rightarrow> bool" where
  "boundary prev s =
     ((case prev of None \<Rightarrow> False | Some c \<Rightarrow> is_word c) \<noteq>
      (case s of [] \<Rightarrow> False | c # cs \<Rightarrow> is_word c))"

text \<open>
  \<^verbatim>\<open>\b(k1|k2|...)\b\<close> at a position, for non-empty literal alternatives: a boundary, one of
  the alternatives, a boundary. An optional character in the pattern (\<^verbatim>\<open>skills?\<close>,
  \<^verbatim>\<open>b\.?tech\<close>) is written as two alternatives.
\<close>

definition words_at :: "string list \<Rightarrow> char option \<Rightarrow> string \<Rightarrow> bool" where
  "words_at alts prev s =
     (boundary prev s \<and>
      list_ex (\<lambda>k. startswith s k \<and> boundary (Some (last k)) (drop (length k) s)) alts)"

text \<open>
  Line 93: \<^verbatim>\<open>[\w.+-]+@[\w-]+\.[\w.-]+\<close> at a position. The sign \<^verbatim>\<open>@\<close> is outside the first
  class and the dot is outside the second, so each of the two runs is taken whole.
\<close>

definition email_at :: "char option \<Rightarrow> string \<Rightarrow> bool" where
  "email_at prev s =
     (let is_local = (\<lambda>c. is_word c \<or> c = CHR ''.'' \<or> c = CHR ''+'' \<or> c = CHR ''-'');
          is_domain = (\<lambda>c. is_word c \<or> c = CHR ''-'');
          is_tail = (\<lambda>c. is_word c \<or> c = CHR ''.'' \<or> c = CHR ''-'')
      in takeWhile is_local s \<noteq> [] \<and>
         (case dropWhile is_local s of
            [] \<Rightarrow> False
          | a # r1 \<Rightarrow>
              a = CHR ''@'' \<and> takeWhile is_domain r1 \<noteq> [] \<and>
              (case dropWhile is_domain r1 of
                 [] \<Rightarrow> False
               | d # r2 \<Rightarrow> d = CHR ''.'' \<and> (case r2 of [] \<Rightarrow> False | t # r3 \<Rightarrow> is_tail t))))"

text \<open>Line 94: \<^verbatim>\<open>\+?\d[\d ()-]{7,}\<close> at a position.\<close>

definition phone_at :: "char option \<Rightarrow> string \<Rightarrow> bool" where
  "phone_at prev s =
     (let is_phone = (\<lambda>c. is_digit c \<or> c = CHR '' '' \<or> c = CHR ''('' \<or> c = CHR '')'' \<or> c = CHR ''-'');
          s' = (case s of [] \<Rightarrow> [] | c # cs \<Rightarrow> if c = CHR ''+'' then cs else c # cs)
      in case s' of
           [] \<Rightarrow> False
         | d # r \<Rightarrow> is_digit d \<and> 7 \<le> length (takeWhile is_phone r))"

text \<open>The dictionary of lines 86 to 96, as the list of its items in the order written.\<close>

definition detect_criteria :: "string \<Rightarrow> bool \<Rightarrow> (string \<times> bool) list" where
  "detect_criteria text has_photo =
     (let t = lower text in
      [(''Profile Photo'', has_photo),
       (''Summary'', search_re (words_at [''objective'', ''summary'']) None t),
       (''Skills'', search_re (words_at [''skills'', ''skill'']) None t),
       (''Education'',
          search_re (words_at [''education'', ''b.tech'', ''btech'', ''bachelor'', ''master'', ''phd''])
            None t),
       (''Projects'', search_re (words_at [''projects'', ''project'']) None t),
       (''Contact Info'', search_re email_at None text \<or> search_re phone_at None text)])"

section \<open>The analysis route and the error handler\<close>

text \<open>
  A rendered page is the template name, the keyword arguments of \<^verbatim>\<open>render_template\<close> in
  the order written, and the status code (200 unless the handler gives another).
\<close>

datatype jinja = JInt int | JStr string | JList "string list" | JDict "(string \<times> bool) list"

record response =
  template :: string
  kwargs :: "(string \<times> jinja) list"
  status :: nat

text \<open>
  The environment of a request: the uploads folder, the parsing libraries and the
  collaborator.
\<close>

record environment =
  upload_folder :: string
  libs :: libraries
  model :: gemini

text \<open>\<^verbatim>\<open>os.path.join(a, b)\<close> on a POSIX system.\<close>

definition os_path_join :: "string \<Rightarrow> string \<Rightarrow> string" where
  "os_path_join a b =
     (if startswith b ''/'' then b
      else if a = [] \<or> last a = CHR ''/'' then a @ b
      else a @ ''/'' @ b)"

text \<open>
  Lines 175 to 203. The argument is \<^verbatim>\<open>request.args.get('filename')\<close>. The view either
  raises (\<open>Inl\<close>) or returns a page (\<open>Inr\<close>); the second component lists the prompts sent
  to the collaborator. The \<^verbatim>\<open>try\<close> statement of lines 187 to 193 is a value of a sum
  type with the \<^verbatim>\<open>except\<close> clause as the branch for \<open>Inl\<close>. None of the three calls in
  its body has a raising branch, since \<open>ask_gemini\<close> turns every exception of the
  collaborator into a reply, so the body always ends in \<open>Inr\<close>.
\<close>

definition analysis :: "environment \<Rightarrow> string option \<Rightarrow> (exc + response) \<times> string list" where
  "analysis env filename =
     (case filename of
        None \<Rightarrow> (Inl (HTTPException 400 ''Filename missing''), [])
      | Some fname \<Rightarrow>
          if fname = [] then (Inl (HTTPException 400 ''Filename missing''), [])
          else
            (case extract_text_and_photo (libs env) (os_path_join (upload_folder env) fname) of
               Inl e \<Rightarrow> (Inl e, [])
             | Inr (text, has_photo) \<Rightarrow>
                 (let criteria = detect_criteria text has_photo in
                  if length (filter snd criteria) < 3 then
                    (Inl (HTTPException 400
                       (''Uploaded file doesn'' @ rsquo @ ''t appear to be a resume.'')), [])
                  else
                    (case
                       (let ((score, suggestions), sent1) = score_and_suggest (model env) text [];
                            (errors, sent2) = grammar_errors (model env) text sent1;
                            ((job_roles, job_field), sent3) = recommend_jobs (model env) text sent2
                        in (Inr (score, suggestions, errors, job_roles, job_field), sent3))
                     of
                       (Inl e, sent) \<Rightarrow>
                         (Inl (HTTPException 502 (''AI model error: '' @ str_exc e)), sent)
                     | (Inr (score, suggestions, errors, job_roles, job_field), sent) \<Rightarrow>
                         (Inr \<lparr>template = ''results.html'',
                               kwargs =
                                 [(''score'', JInt score),
                                  (''criteria'', JDict criteria),
                                  (''errors'', JList (take 10 errors)),
                                  (''suggestions'', JList suggestions),
                                  (''job_roles'', JList job_roles),
                                  (''job_field'', JStr job_field)],
                               status = 200\<rparr>, sent)))))"

text \<open>
  Lines 205 to 214: the handler registered for the codes 400 and 502, applied to the
  \<open>HTTPException\<close> with the given code and description.
\<close>

definition handle_errors :: "nat \<Rightarrow> string \<Rightarrow> response" where
  "handle_errors c description =
     \<lparr>template = ''results.html'',
      kwargs =
        [(''score'', JInt 0),
         (''criteria'', JDict []),
         (''errors'', JList [str_exc (HTTPException c description)]),
         (''suggestions'', JList [])],
      status = c\<rparr>"

text \<open>
  What the framework does with the result of a view: a returned page is the response;
  an \<open>HTTPException\<close> with a code that has a registered handler goes to that handler;
  an \<open>HTTPException\<close> with another code is answered by the framework's own page for
  the code; every other exception leaves the application unhandled.
\<close>

datatype outcome = Response (page: response) | Default_page nat string | Unhandled exc

fun dispatch :: "exc + response \<Rightarrow> outcome" where
  "dispatch (Inr r) = Response r"
| "dispatch (Inl (HTTPException c description)) =
     (if c = 400 \<or> c = 502 then Response (handle_errors c description)
      else Default_page c description)"
| "dispatch (Inl IndexError) = Unhandled IndexError"
| "dispatch (Inl (LibraryError e)) = Unhandled (LibraryError e)"

definition get_analysis :: "environment \<Rightarrow> string option \<Rightarrow> outcome \<times> string list" where
  "get_analysis env filename =
     (let (result, sent) = analysis env filename in (dispatch result, sent))"

text \<open>The value a page passes to the template under a name, and the names it passes.\<close>

definition passed :: "response \<Rightarrow> string \<Rightarrow> jinja option" where
  "passed r name = map_of (kwargs r) name"

definition names :: "response \<Rightarrow> string list" where
  "names r = map fst (kwargs r)"

text \<open>
  Environments for the examples: the uploads folder is \<open>/srv/uploads\<close>; with
  \<open>textract_gives t\<close> the general extractor returns \<open>t\<close> for every path and the two
  other libraries raise; with \<open>nothing_stored\<close> all three libraries raise.
\<close>

definition textract_gives :: "string \<Rightarrow> libraries" where
  "textract_gives t =
     \<lparr>pdfplumber_open = (\<lambda>path. Inl ''No such file''),
      docx_Document = (\<lambda>path. Inl ''Package not found''),
      textract_process = (\<lambda>path. Inr t)\<rparr>"

definition nothing_stored :: libraries where
  "nothing_stored =
     \<lparr>pdfplumber_open = (\<lambda>path. Inl ''No such file''),
      docx_Document = (\<lambda>path. Inl ''Package not found''),
      textract_process = (\<lambda>path. Inl ''The file does not exist'')\<rparr>"

definition demo_env :: "libraries \<Rightarrow> gemini \<Rightarrow> environment" where
  "demo_env l g = \<lparr>upload_folder = ''/srv/uploads'', libs = l, model = g\<rparr>"

text \<open>
  Two extracted texts, one that meets two of the six criteria (Skills, Education) and
  one that meets three (Skills, Education, Projects), and a reply with a score line,
  twelve dash lines and a field line.
\<close>

definition two_criteria_text :: string where
  "two_criteria_text = ''Skills: Python. Education: none.''"

definition three_criteria_text :: string where
  "three_criteria_text = ''Skills, Education, Projects''"

definition twelve_items :: string where
  "twelve_items =
     ''Score: 70/100\<newline>- a\<newline>- b\<newline>- c\<newline>- d\<newline>- e\<newline>- f\<newline>- g\<newline>- h\<newline>- i\<newline>- j\<newline>- k\<newline>- l\<newline>Field: IT''"

definition eight_items :: string where
  "eight_items = ''- a\<newline>- b\<newline>- c\<newline>- d\<newline>- e\<newline>- f\<newline>- g\<newline>- h''"

text \<open>
  An exception text of the collaborator that the parsers map to their defaults: it is
  on one line, has no match of the score pattern and holds neither word of the field
  test.
\<close>

definition plain_detail :: "string \<Rightarrow> bool" where
  "plain_detail e =
     (\<not> list_ex is_linebreak e \<and> search_score e = None \<and>
      \<not> contains ''industry'' (lower e) \<and> \<not> contains ''field'' (lower e))"

text \<open>The reply that \<open>ask_gemini\<close> returns for an exception with text \<open>e\<close>.\<close>

definition sentinel :: "string \<Rightarrow> string" where
  "sentinel e = cross_mark @ '' Gemini API Error: '' @ e"

section \<open>Properties\<close>

subsection \<open>Camel-case repair\<close>

lemma camel_case_not_lower:
  "\<not> is_ascii_lower b \<Longrightarrow> camel_case (b # cs) = b # camel_case cs"
  by (cases cs) simp_all

lemma camel_case_head:
  "\<exists>t. camel_case (b # cs) = b # t"
  by (cases cs) simp_all

lemma upper_not_lower: "is_ascii_upper b \<Longrightarrow> \<not> is_ascii_lower b"
  by (simp add: is_ascii_upper_def is_ascii_lower_def Let_def)

lemma space_not_upper: "\<not> is_ascii_upper (CHR '' '')"
  by (simp add: is_ascii_upper_def code_def)

lemma space_not_lower: "\<not> is_ascii_lower (CHR '' '')"
  by (simp add: is_ascii_lower_def code_def)

lemma camel_case_twice: "camel_case (camel_case s) = camel_case s"
proof (induction s rule: camel_case.induct)
  case (1 a b cs)
  show ?case
  proof (cases "is_ascii_lower a \<and> is_ascii_upper b")
    case True
    then have nb: "\<not> is_ascii_lower b" by (simp add: upper_not_lower)
    have "camel_case (a # CHR '' '' # b # camel_case cs)
            = a # CHR '' '' # b # camel_case (camel_case cs)"
      by (simp add: space_not_upper space_not_lower camel_case_not_lower [OF nb])
    with True 1 show ?thesis by simp
  next
    case False
    obtain t where t: "camel_case (b # cs) = b # t"
      using camel_case_head by blast
    have step: "camel_case (a # b # cs) = a # camel_case (b # cs)"
      using False by auto
    have ih: "camel_case (camel_case (b # cs)) = camel_case (b # cs)"
      using False 1 by blast
    have "camel_case (a # b # t) = a # camel_case (b # t)"
      using False by auto
    then have "camel_case (a # camel_case (b # cs)) = a # camel_case (camel_case (b # cs))"
      by (simp only: t)
    then show ?thesis
      by (simp only: step ih)
  qed
qed simp_all

lemma has_transition_not_lower:
  "\<not> is_ascii_lower b \<Longrightarrow> has_transition (b # cs) = has_transition cs"
  by (cases cs) simp_all

lemma camel_case_no_transition: "\<not> has_transition (camel_case s)"
proof (induction s rule: camel_case.induct)
  case (1 a b cs)
  show ?case
  proof (cases "is_ascii_lower a \<and> is_ascii_upper b")
    case True
    then have nb: "\<not> is_ascii_lower b" by (simp add: upper_not_lower)
    have "has_transition (a # CHR '' '' # b # camel_case cs) = has_transition (camel_case cs)"
      by (simp add: space_not_upper space_not_lower has_transition_not_lower [OF nb])
    with True 1 show ?thesis by simp
  next
    case False
    obtain t where t: "camel_case (b # cs) = b # t"
      using camel_case_head by blast
    have ih: "\<not> has_transition (camel_case (b # cs))"
      using False 1 by blast
    have step: "camel_case (a # b # cs) = a # b # t"
      using False t by auto
    have "\<not> has_transition (a # b # t)"
      using False ih t by auto
    then show ?thesis unfolding step .
  qed
qed simp_all

lemma camel_case_fixed: "\<not> has_transition s \<Longrightarrow> camel_case s = s"
  by (induction s rule: camel_case.induct) auto

subsection \<open>The parsing loops\<close>

lemma digit_value_le: "is_digit c \<Longrightarrow> code c - 48 \<le> 9"
  by (auto simp: is_digit_def Let_def)

lemma digits_value_bound:
  "list_all is_digit ds \<Longrightarrow> digits_value acc ds < (acc + 1) * 10 ^ length ds"
proof (induction ds arbitrary: acc)
  case Nil
  then show ?case by simp
next
  case (Cons c cs)
  then have d: "code c - 48 \<le> 9" and rest: "list_all is_digit cs"
    by (simp_all add: digit_value_le)
  have "digits_value (10 * acc + (code c - 48)) cs
          < (10 * acc + (code c - 48) + 1) * 10 ^ length cs"
    using Cons.IH [OF rest] .
  also have "\<dots> \<le> (10 * acc + 10) * 10 ^ length cs"
    using d by (intro mult_right_mono) simp_all
  finally show ?case by (simp add: algebra_simps)
qed

lemma takeWhile_all: "list_all p (takeWhile p xs)"
  by (induction xs) simp_all

lemma match_score_at_bound: "match_score_at s = Some n \<Longrightarrow> n \<le> 999"
proof -
  assume m: "match_score_at s = Some n"
  then obtain r where n: "n = digits_value 0 (takeWhile is_digit r)"
      and len: "length (takeWhile is_digit r) \<le> 3"
    by (auto simp: match_score_at_def Let_def split: if_splits list.splits)
  have "digits_value 0 (takeWhile is_digit r) < (0 + 1) * 10 ^ length (takeWhile is_digit r)"
    by (rule digits_value_bound) (rule takeWhile_all)
  also have "\<dots> = 10 ^ length (takeWhile is_digit r)"
    by simp
  also have "\<dots> \<le> (10::nat) ^ 3"
    by (rule power_increasing) (use len in simp_all)
  finally show ?thesis using n by simp
qed

lemma search_score_bound: "search_score s = Some n \<Longrightarrow> n \<le> 999"
  by (induction s) (auto simp: match_score_at_bound split: option.splits)

lemma score_loop_find:
  "score_loop d lns =
     (case find (\<lambda>ln. search_score ln \<noteq> None) lns of
        None \<Rightarrow> d | Some ln \<Rightarrow> int (the (search_score ln)))"
  by (induction lns) (auto split: option.splits)

lemma score_loop_range: "0 \<le> d \<Longrightarrow> d \<le> 999 \<Longrightarrow> 0 \<le> score_loop d lns \<and> score_loop d lns \<le> 999"
  by (induction lns) (auto split: option.splits dest: search_score_bound)

lemma suggestions_loop_filter:
  "suggestions_loop acc lns =
     acc @ map (\<lambda>ln. strip (strip_chars ''- '' ln)) (filter (\<lambda>ln. startswith (strip ln) ''-'') lns)"
  by (induction lns arbitrary: acc) simp_all

lemma find_snoc:
  "find p (xs @ [x]) = (case find p xs of Some y \<Rightarrow> Some y | None \<Rightarrow> if p x then Some x else None)"
  by (induction xs) simp_all

lemma jobs_loop_char:
  "jobs_loop (roles, field) lns =
     (roles @ map (\<lambda>ln. strip (strip_chars ''- '' ln)) (filter (\<lambda>ln. startswith (strip ln) ''-'') lns),
      case find (\<lambda>ln. \<not> startswith (strip ln) ''-'' \<and>
                    (contains ''industry'' (lower ln) \<or> contains ''field'' (lower ln))) (rev lns) of
        None \<Rightarrow> field | Some ln \<Rightarrow> strip ln)"
proof (induction lns arbitrary: roles field)
  case Nil
  show ?case by simp
next
  case (Cons ln lns)
  show ?case
    by (auto simp: Cons.IH find_snoc split: option.splits)
qed

subsection \<open>Replies, routes and example environments\<close>

lemmas char_classes = code_def is_space_def is_linebreak_def is_digit_def is_ascii_lower_def
  is_ascii_upper_def lower_char_def Let_def char_of_def bit_simps

lemma ask_gemini_fst:
  "ask_gemini gen prompt sent =
     (fst (ask_gemini gen prompt sent), sent @ [prompt])"
  by (simp add: ask_gemini_def split: sum.splits)

lemma score_and_suggest_eq:
  "score_and_suggest gen text sent =
     ((score_loop 0 (splitlines (fst (ask_gemini gen (score_prompt text) sent))),
       take 5 (suggestions_loop [] (splitlines (fst (ask_gemini gen (score_prompt text) sent))))),
      sent @ [score_prompt text])"
  by (simp add: score_and_suggest_def ask_gemini_def Let_def split: sum.splits)

lemma grammar_errors_eq:
  "grammar_errors gen text sent =
     (map (\<lambda>ln. strip (strip_chars ''- '' ln))
        (filter (\<lambda>ln. startswith (strip ln) ''-'')
           (splitlines (fst (ask_gemini gen (grammar_prompt text) sent)))),
      sent @ [grammar_prompt text])"
  by (simp add: grammar_errors_def ask_gemini_def Let_def split: sum.splits)

lemma recommend_jobs_eq:
  "recommend_jobs gen text sent =
     ((take 5 (fst (jobs_loop ([], ''Not identified'')
                 (splitlines (fst (ask_gemini gen (jobs_prompt text) sent))))),
       snd (jobs_loop ([], ''Not identified'')
              (splitlines (fst (ask_gemini gen (jobs_prompt text) sent))))),
      sent @ [jobs_prompt text])"
  by (simp add: recommend_jobs_def ask_gemini_def Let_def split: sum.splits prod.splits)

lemma strip_where_all: "list_all p s \<Longrightarrow> strip_where p s = []"
  by (induction s) (simp_all add: strip_where_def)

lemma strip_where_head: "\<not> p c \<Longrightarrow> strip_where p (c # cs) = c # rev (dropWhile p (rev cs))"
  by (simp add: strip_where_def dropWhile_append3)

lemma dash_space_only:
  "list_all (\<lambda>c. List.member ''- '' c) (filter (\<lambda>c. c = CHR ''-'' \<or> c = CHR '' '') s)"
  by (induction s) auto

lemma strip_nil: "strip [] = []"
  by (simp add: strip_def strip_where_def)

lemma dash_space_item: "strip (strip_chars ''- '' (filter (\<lambda>c. c = CHR ''-'' \<or> c = CHR '' '') s)) = []"
proof -
  have "strip_where (\<lambda>c. List.member ''- '' c) (filter (\<lambda>c. c = CHR ''-'' \<or> c = CHR '' '') s) = []"
    by (rule strip_where_all) (rule dash_space_only)
  then show ?thesis
    by (simp only: strip_chars_def strip_nil)
qed

lemma space_is_space: "is_space (CHR '' '')"
  by (simp add: char_classes)

lemma dash_not_space: "\<not> is_space (CHR ''-'')"
  by (simp add: char_classes)

lemma dash_space_line:
  "startswith (strip (filter (\<lambda>c. c = CHR ''-'' \<or> c = CHR '' '') s)) ''-'' = (CHR ''-'' \<in> set s)"
proof (induction s)
  case Nil
  show ?case by (simp add: strip_nil)
next
  case (Cons c cs)
  show ?case
  proof (cases "c = CHR ''-''")
    case True
    then show ?thesis
      by (simp add: strip_def strip_where_head [of is_space "CHR ''-''"] dash_not_space)
  next
    case False
    have sp: "strip (CHR '' '' # t) = strip t" for t
      by (simp add: strip_def strip_where_def space_is_space)
    show ?thesis
      using False Cons.IH by (auto simp: sp)
  qed
qed

lemma cr_is_linebreak: "is_linebreak (CHR 0x0D)"
  by (simp add: is_linebreak_def code_def)

lemma splitlines_from_one_line:
  "\<not> list_ex is_linebreak s \<Longrightarrow>
   splitlines_from cur s = (if cur = [] \<and> s = [] then [] else [rev cur @ s])"
proof (induction s arbitrary: cur)
  case Nil
  show ?case by simp
next
  case (Cons c cs)
  then have c: "\<not> is_linebreak c" and cs: "\<not> list_ex is_linebreak cs"
    by simp_all
  from c have "c \<noteq> CHR 0x0D"
    using cr_is_linebreak by auto
  then show ?case
    using c Cons.IH [OF cs] by simp
qed

lemma splitlines_one_line:
  "\<not> list_ex is_linebreak s \<Longrightarrow> s \<noteq> [] \<Longrightarrow> splitlines s = [s]"
  by (simp add: splitlines_def splitlines_from_one_line)

lemma sentinel_lines:
  "\<not> list_ex is_linebreak e \<Longrightarrow> splitlines (sentinel e) = [sentinel e]"
  by (rule splitlines_one_line)
     (simp_all add: sentinel_def cross_mark_def is_linebreak_def code_def)

lemma sentinel_no_dash: "\<not> startswith (strip (sentinel e)) ''-''"
proof -
  have "\<not> is_space (CHR 0xE2)"
    by (simp add: is_space_def code_def)
  then show ?thesis
    by (simp add: sentinel_def cross_mark_def strip_def strip_where_head)
qed

lemma sentinel_score: "search_score (sentinel e) = search_score e"
  by (simp add: sentinel_def cross_mark_def match_score_at_def char_classes)

lemma sentinel_words:
  "contains ''industry'' (lower (sentinel e)) = contains ''industry'' (lower e)"
  "contains ''field'' (lower (sentinel e)) = contains ''field'' (lower e)"
  by (simp_all add: sentinel_def cross_mark_def lower_def char_classes)

lemma ask_gemini_raise:
  "gen prompt = Inl e \<Longrightarrow> ask_gemini gen prompt sent = (sentinel e, sent @ [prompt])"
  by (simp add: ask_gemini_def sentinel_def)

lemma analysis_extracted:
  assumes "fname \<noteq> []"
    and "extract_text_and_photo (libs env) (os_path_join (upload_folder env) fname) = Inr (text, has_photo)"
  shows "analysis env (Some fname) =
     (if length (filter snd (detect_criteria text has_photo)) < 3
      then (Inl (HTTPException 400 (''Uploaded file doesn'' @ rsquo @ ''t appear to be a resume.'')), [])
      else (Inr \<lparr>template = ''results.html'',
                 kwargs =
                   [(''score'', JInt (fst (fst (score_and_suggest (model env) text [])))),
                    (''criteria'', JDict (detect_criteria text has_photo)),
                    (''errors'', JList (take 10 (fst (grammar_errors (model env) text [score_prompt text])))),
                    (''suggestions'', JList (snd (fst (score_and_suggest (model env) text [])))),
                    (''job_roles'', JList (fst (fst (recommend_jobs (model env) text
                        [score_prompt text, grammar_prompt text])))),
                    (''job_field'', JStr (snd (fst (recommend_jobs (model env) text
                        [score_prompt text, grammar_prompt text]))))],
                 status = 200\<rparr>,
            [score_prompt text, grammar_prompt text, jobs_prompt text]))"
  using assms
  by (simp add: analysis_def Let_def score_and_suggest_eq grammar_errors_eq recommend_jobs_eq)

lemma analysis_raised:
  assumes "fname \<noteq> []"
    and "extract_text_and_photo (libs env) (os_path_join (upload_folder env) fname) = Inl e"
  shows "analysis env (Some fname) = (Inl e, [])"
  using assms by (simp add: analysis_def)

lemma analysis_no_name:
  "analysis env None = (Inl (HTTPException 400 ''Filename missing''), [])"
  "analysis env (Some []) = (Inl (HTTPException 400 ''Filename missing''), [])"
  by (simp_all add: analysis_def)

lemma extract_raises_no_http:
  "extract_text_and_photo l path = Inl e \<Longrightarrow> e = IndexError \<or> (\<exists>d. e = LibraryError d)"
  by (auto simp: extract_text_and_photo_def path_ext_def split: if_splits sum.splits prod.splits)

lemma extract_no_file:
  "no_file_at l path \<Longrightarrow> \<exists>e. extract_text_and_photo l path = Inl e"
  by (auto simp: extract_text_and_photo_def no_file_at_def isl_def split: sum.splits)

lemma demo_two:
  "extract_text_and_photo (libs (demo_env (textract_gives two_criteria_text) g))
     (os_path_join (upload_folder (demo_env (textract_gives two_criteria_text) g)) ''cv.doc'') =
     Inr (two_criteria_text, False)"
  by (simp add: demo_env_def textract_gives_def os_path_join_def extract_text_and_photo_def
        path_ext_def lower_def two_criteria_text_def char_classes)

lemma demo_three:
  "extract_text_and_photo (libs (demo_env (textract_gives three_criteria_text) g))
     (os_path_join (upload_folder (demo_env (textract_gives three_criteria_text) g)) ''cv.doc'') =
     Inr (three_criteria_text, False)"
  by (simp add: demo_env_def textract_gives_def os_path_join_def extract_text_and_photo_def
        path_ext_def lower_def three_criteria_text_def char_classes)

lemma count_two: "length (filter snd (detect_criteria two_criteria_text False)) = 2"
  by code_simp

lemma count_three: "length (filter snd (detect_criteria three_criteria_text False)) = 3"
  by code_simp

lemma analysis_cases:
  "(\<exists>d. analysis env filename = (Inl (HTTPException 400 d), [])) \<or>
   (\<exists>e. analysis env filename = (Inl e, []) \<and> (e = IndexError \<or> (\<exists>d. e = LibraryError d))) \<or>
   (\<exists>fname text has_photo. filename = Some fname \<and> fname \<noteq> [] \<and>
      extract_text_and_photo (libs env) (os_path_join (upload_folder env) fname) = Inr (text, has_photo) \<and>
      \<not> length (filter snd (detect_criteria text has_photo)) < 3)"
proof (cases filename)
  case None
  then show ?thesis by (simp add: analysis_no_name)
next
  case (Some fname)
  show ?thesis
  proof (cases "fname = []")
    case True
    with Some show ?thesis by (simp add: analysis_no_name)
  next
    case False
    show ?thesis
    proof (cases "extract_text_and_photo (libs env) (os_path_join (upload_folder env) fname)")
      case (Inl e)
      from analysis_raised [OF False Inl] extract_raises_no_http [OF Inl] Some
      show ?thesis by blast
    next
      case (Inr p)
      obtain t has_photo where p: "p = (t, has_photo)" by (cases p)
      from analysis_extracted [OF False Inr [unfolded p]] Some False Inr p
      show ?thesis by (cases "length (filter snd (detect_criteria t has_photo)) < 3") auto
    qed
  qed
qed

lemma get_analysis_response:
  assumes "fst (get_analysis env filename) = Response r"
  shows "(\<exists>d. r = handle_errors 400 d) \<or>
         (\<exists>fname text has_photo. filename = Some fname \<and> fname \<noteq> [] \<and>
            extract_text_and_photo (libs env) (os_path_join (upload_folder env) fname) = Inr (text, has_photo) \<and>
            \<not> length (filter snd (detect_criteria text has_photo)) < 3)"
  using analysis_cases [of env filename] assms
  by (auto simp: get_analysis_def)

subsection \<open>The claims\<close>

text \<open>
  C1, as the code has it. In \<open>recommend_jobs\<close> a line whose trimmed text begins with a
  dash is a job role and is never the field. Among the other lines, the field is the
  last one whose lower-cased text contains \<open>industry\<close> or \<open>field\<close>, with the white space
  at its two ends removed; with no such line the field is \<open>Not identified\<close>. A reply
  whose only such line is \<open>Field: Software Engineering\<close> yields that line.
\<close>

theorem field_is_last_plain_line:
  "snd (fst (recommend_jobs gen text sent)) =
     (case find (\<lambda>ln. \<not> startswith (strip ln) ''-'' \<and>
                   (contains ''industry'' (lower ln) \<or> contains ''field'' (lower ln)))
             (rev (splitlines (fst (ask_gemini gen (jobs_prompt text) sent)))) of
        None \<Rightarrow> ''Not identified''
      | Some ln \<Rightarrow> strip ln) \<and>
   snd (fst (recommend_jobs (reply_with ''- Developer\<newline>Field: Software Engineering'') text sent)) =
     ''Field: Software Engineering'' \<and>
   snd (fst (recommend_jobs (reply_with ''- Developer\<newline>- Tester'') text sent)) = ''Not identified''"
proof -
  have a: "snd (fst (recommend_jobs (reply_with ''- Developer\<newline>Field: Software Engineering'') text sent)) =
     ''Field: Software Engineering''"
    by (simp add: recommend_jobs_eq ask_gemini_def reply_with_def splitlines_def
        strip_def strip_chars_def strip_where_def lower_def char_classes)
  have b: "snd (fst (recommend_jobs (reply_with ''- Developer\<newline>- Tester'') text sent)) = ''Not identified''"
    by (simp add: recommend_jobs_eq ask_gemini_def reply_with_def splitlines_def
        strip_def strip_chars_def strip_where_def lower_def char_classes)
  show ?thesis
    by (simp only: a b simp_thms) (simp add: recommend_jobs_eq jobs_loop_char)
qed

text \<open>
  C1 as stated fails. In the reply with the lines \<open>Field: Software Engineering\<close> and
  \<open>Industry: Tech\<close> the field is the second line, not the first; and the line
  \<open>- Field: Software Engineering\<close>, which begins with a dash, is not taken as the field.
\<close>

theorem field_not_first_line:
  "snd (fst (recommend_jobs (reply_with ''Field: Software Engineering\<newline>Industry: Tech'') ''resume'' [])) =
     ''Industry: Tech'' \<and>
   snd (fst (recommend_jobs (reply_with ''Field: Software Engineering\<newline>Industry: Tech'') ''resume'' [])) \<noteq>
     ''Field: Software Engineering'' \<and>
   snd (fst (recommend_jobs (reply_with ''- Field: Software Engineering'') ''resume'' [])) =
     ''Not identified''"
  by (simp add: recommend_jobs_eq ask_gemini_def reply_with_def splitlines_def
        strip_def strip_chars_def strip_where_def lower_def char_classes)

text \<open>
  C2, as the code has it. For every reply the score of \<open>score_and_suggest\<close> is an integer
  between 0 and 999, since the pattern admits one to three digits and nothing compares
  the number with 100; it is 0 when no line of the reply matches the pattern.
\<close>

theorem score_within_0_999:
  "0 \<le> fst (fst (score_and_suggest gen text sent)) \<and>
   fst (fst (score_and_suggest gen text sent)) \<le> 999 \<and>
   (find (\<lambda>ln. search_score ln \<noteq> None)
      (splitlines (fst (ask_gemini gen (score_prompt text) sent))) = None \<longrightarrow>
    fst (fst (score_and_suggest gen text sent)) = 0)"
  using score_loop_range [of 0 "splitlines (fst (ask_gemini gen (score_prompt text) sent))"]
  by (simp add: score_and_suggest_eq score_loop_find)

text \<open>
  The reply \<open>Looks fine\<close> has no line that matches, and its score is 0.
\<close>

theorem score_within_0_999_witness:
  "find (\<lambda>ln. search_score ln \<noteq> None)
     (splitlines (fst (ask_gemini (reply_with ''Looks fine'') (score_prompt ''resume'') []))) = None \<and>
   fst (fst (score_and_suggest (reply_with ''Looks fine'') ''resume'' [])) = 0"
proof -
  have h: "find (\<lambda>ln. search_score ln \<noteq> None)
     (splitlines (fst (ask_gemini (reply_with ''Looks fine'') (score_prompt ''resume'') []))) = None"
    by (simp add: ask_gemini_def reply_with_def splitlines_def match_score_at_def char_classes)
  with score_within_0_999 [of "reply_with ''Looks fine''" "''resume''" "[]"]
  show ?thesis by blast
qed

text \<open>
  C2 as stated fails: the reply \<open>Score: 999/100\<close> gives the score 999.
\<close>

theorem score_above_100:
  "fst (fst (score_and_suggest (reply_with ''Score: 999/100'') ''resume'' [])) = 999 \<and>
   \<not> fst (fst (score_and_suggest (reply_with ''Score: 999/100'') ''resume'' [])) \<le> 100"
  by (simp add: score_and_suggest_eq ask_gemini_def reply_with_def splitlines_def
        match_score_at_def char_classes)

text \<open>
  C3. \<open>score_and_suggest\<close> takes the score from the first line of the reply in which the
  pattern of line 118 matches, and 0 when there is none. Independently of that, the
  list it collects holds one suggestion for every line whose trimmed text begins with a
  dash, in order; the list returned is the first five of the collected list. The reply
  with the lines \<open>Score: 85/100\<close> and \<open>- improve formatting\<close> yields 85 and
  \<open>[improve formatting]\<close>, and a reply with no matching line yields the score 0.
\<close>

theorem score_and_suggest_parse:
  "score_and_suggest gen text sent =
     ((case find (\<lambda>ln. search_score ln \<noteq> None)
              (splitlines (fst (ask_gemini gen (score_prompt text) sent))) of
         None \<Rightarrow> 0
       | Some ln \<Rightarrow> int (the (search_score ln)),
       take 5 (suggestions_loop [] (splitlines (fst (ask_gemini gen (score_prompt text) sent))))),
      sent @ [score_prompt text]) \<and>
   suggestions_loop [] (splitlines (fst (ask_gemini gen (score_prompt text) sent))) =
     map (\<lambda>ln. strip (strip_chars ''- '' ln))
       (filter (\<lambda>ln. startswith (strip ln) ''-'')
          (splitlines (fst (ask_gemini gen (score_prompt text) sent)))) \<and>
   fst (score_and_suggest (reply_with ''Score: 85/100\<newline>- improve formatting'') text sent) =
     (85, [''improve formatting'']) \<and>
   fst (fst (score_and_suggest (reply_with ''- improve formatting'') text sent)) = 0"
proof -
  have a: "fst (score_and_suggest (reply_with ''Score: 85/100\<newline>- improve formatting'') text sent) =
     (85, [''improve formatting''])"
    by (simp add: score_and_suggest_eq ask_gemini_def reply_with_def splitlines_def
        match_score_at_def strip_def strip_chars_def strip_where_def char_classes)
  have b: "fst (fst (score_and_suggest (reply_with ''- improve formatting'') text sent)) = 0"
    by (simp add: score_and_suggest_eq ask_gemini_def reply_with_def splitlines_def
        match_score_at_def char_classes)
  show ?thesis
    by (simp only: a b simp_thms) (simp add: score_and_suggest_eq score_loop_find suggestions_loop_filter)
qed

text \<open>
  C4, as the code has it. An exception raised by the collaborator inside \<open>ask_gemini\<close> is
  not raised again: \<open>ask_gemini\<close> returns the cross mark, the words \<open>Gemini API Error:\<close>
  and the text of the exception. When that text is on one line, has no match of the
  score pattern and contains neither \<open>industry\<close> nor \<open>field\<close> in any letter case, parsing
  the returned string yields the score 0, no suggestions, no grammar errors, no job
  roles and the field \<open>Not identified\<close>.
\<close>

theorem sentinel_parses_to_defaults:
  "(gen prompt = Inl e \<longrightarrow>
      ask_gemini gen prompt sent = (cross_mark @ '' Gemini API Error: '' @ e, sent @ [prompt])) \<and>
   (plain_detail e \<and> gen (score_prompt text) = Inl e \<longrightarrow>
      fst (score_and_suggest gen text sent) = (0, [])) \<and>
   (plain_detail e \<and> gen (grammar_prompt text) = Inl e \<longrightarrow>
      fst (grammar_errors gen text sent) = []) \<and>
   (plain_detail e \<and> gen (jobs_prompt text) = Inl e \<longrightarrow>
      fst (recommend_jobs gen text sent) = ([], ''Not identified''))"
proof -
  have a: "fst (score_and_suggest gen text sent) = (0, [])"
    if "plain_detail e" "gen (score_prompt text) = Inl e"
    using that sentinel_no_dash [of e]
    by (simp add: plain_detail_def score_and_suggest_eq ask_gemini_raise sentinel_lines
          sentinel_score)
  have b: "fst (grammar_errors gen text sent) = []"
    if "plain_detail e" "gen (grammar_prompt text) = Inl e"
    using that sentinel_no_dash [of e]
    by (simp add: plain_detail_def grammar_errors_eq ask_gemini_raise sentinel_lines)
  have c: "fst (recommend_jobs gen text sent) = ([], ''Not identified'')"
    if "plain_detail e" "gen (jobs_prompt text) = Inl e"
    using that sentinel_no_dash [of e]
    by (simp add: plain_detail_def recommend_jobs_eq ask_gemini_raise sentinel_lines
          sentinel_words)
  show ?thesis
    using a b c by (simp add: ask_gemini_def)
qed

text \<open>
  The exception text \<open>503 Service Unavailable\<close> is such a text.
\<close>

theorem sentinel_parses_to_defaults_witness:
  "raise_with ''503 Service Unavailable'' ''hello'' = Inl ''503 Service Unavailable'' \<and>
   plain_detail ''503 Service Unavailable'' \<and>
   ask_gemini (raise_with ''503 Service Unavailable'') ''hello'' [] =
     (cross_mark @ '' Gemini API Error: 503 Service Unavailable'', [''hello'']) \<and>
   fst (score_and_suggest (raise_with ''503 Service Unavailable'') ''resume'' []) = (0, []) \<and>
   fst (grammar_errors (raise_with ''503 Service Unavailable'') ''resume'' []) = [] \<and>
   fst (recommend_jobs (raise_with ''503 Service Unavailable'') ''resume'' []) =
     ([], ''Not identified'')"
proof -
  have r: "raise_with ''503 Service Unavailable'' p = Inl ''503 Service Unavailable''" for p
    by (simp add: raise_with_def)
  have p: "plain_detail ''503 Service Unavailable''"
    by (simp add: plain_detail_def match_score_at_def lower_def char_classes)
  show ?thesis
    using r p
      sentinel_parses_to_defaults [of "raise_with ''503 Service Unavailable''" "''hello''"
        "''503 Service Unavailable''" "[]" "''resume''"]
    by simp
qed

text \<open>
  C4 as stated fails. The exception text \<open>unknown field\<close> makes the whole error reply
  the field; an exception text with a match of the score pattern gives that score; an
  exception text with a second line that begins with a dash gives a grammar error.
\<close>

theorem sentinel_parses_to_other_values:
  "snd (fst (recommend_jobs (raise_with ''unknown field'') ''resume'' [])) =
     cross_mark @ '' Gemini API Error: unknown field'' \<and>
   snd (fst (recommend_jobs (raise_with ''unknown field'') ''resume'' [])) \<noteq> ''Not identified'' \<and>
   fst (fst (score_and_suggest (raise_with ''quota, Score: 50/100'') ''resume'' [])) = 50 \<and>
   fst (grammar_errors (raise_with ''timeout\<newline>- retry later'') ''resume'' []) = [''retry later'']"
  by (simp add: recommend_jobs_eq score_and_suggest_eq grammar_errors_eq ask_gemini_def
        raise_with_def cross_mark_def splitlines_def match_score_at_def
        strip_def strip_chars_def strip_where_def lower_def char_classes)

text \<open>
  C5. When the file name is not empty and the extraction returns a text and a photo
  flag, the route sends prompts to the collaborator if and only if at least three of
  the six criteria of \<open>detect_criteria\<close> are true, and then it sends the three prompts in
  order. With fewer than three the request ends in the error page with status 400 and
  one error message, and no prompt is sent.
\<close>

theorem gate_at_three_criteria:
  assumes "fname \<noteq> []"
    and "extract_text_and_photo (libs env) (os_path_join (upload_folder env) fname) = Inr (text, has_photo)"
  shows "(3 \<le> length (filter snd (detect_criteria text has_photo)) \<longleftrightarrow>
            snd (get_analysis env (Some fname)) \<noteq> []) \<and>
         (3 \<le> length (filter snd (detect_criteria text has_photo)) \<longrightarrow>
            snd (get_analysis env (Some fname)) =
              [score_prompt text, grammar_prompt text, jobs_prompt text]) \<and>
         (length (filter snd (detect_criteria text has_photo)) < 3 \<longrightarrow>
            get_analysis env (Some fname) =
              (Response (handle_errors 400
                 (''Uploaded file doesn'' @ rsquo @ ''t appear to be a resume.'')), []) \<and>
            status (handle_errors 400
                 (''Uploaded file doesn'' @ rsquo @ ''t appear to be a resume.'')) = 400 \<and>
            passed (handle_errors 400
                 (''Uploaded file doesn'' @ rsquo @ ''t appear to be a resume.'')) ''errors'' =
              Some (JList [''400 Bad Request: Uploaded file doesn'' @ rsquo @
                             ''t appear to be a resume.'']))"
  using analysis_extracted [OF assms]
  by (simp add: get_analysis_def handle_errors_def passed_def http_name_def)

text \<open>
  A text with two criteria is refused with no call; a text with three criteria reaches
  the three calls.
\<close>

theorem gate_at_three_criteria_witness:
  "''cv.doc'' \<noteq> [] \<and>
   extract_text_and_photo (libs (demo_env (textract_gives two_criteria_text) (reply_with twelve_items)))
     (os_path_join (upload_folder (demo_env (textract_gives two_criteria_text) (reply_with twelve_items)))
        ''cv.doc'') = Inr (two_criteria_text, False) \<and>
   length (filter snd (detect_criteria two_criteria_text False)) = 2 \<and>
   get_analysis (demo_env (textract_gives two_criteria_text) (reply_with twelve_items)) (Some ''cv.doc'') =
     (Response (handle_errors 400 (''Uploaded file doesn'' @ rsquo @ ''t appear to be a resume.'')), []) \<and>
   length (filter snd (detect_criteria three_criteria_text False)) = 3 \<and>
   snd (get_analysis (demo_env (textract_gives three_criteria_text) (reply_with twelve_items))
          (Some ''cv.doc'')) =
     [score_prompt three_criteria_text, grammar_prompt three_criteria_text,
      jobs_prompt three_criteria_text]"
proof -
  have ne: "''cv.doc'' \<noteq> []" by simp
  show ?thesis
    using gate_at_three_criteria [OF ne demo_two [of "reply_with twelve_items"]]
      gate_at_three_criteria [OF ne demo_three [of "reply_with twelve_items"]]
      demo_two [of "reply_with twelve_items"]
    by (simp add: count_two count_three)
qed

text \<open>
  C6, as the code has it. For an \<open>HTTPException\<close> with code 400 or 502 the response is
  the page of \<open>handle_errors\<close>: the template \<open>results.html\<close> of a successful analysis, with
  exactly the four names \<open>score\<close> (0), \<open>criteria\<close> (empty), \<open>errors\<close> (the one message
  \<^verbatim>\<open>str(e)\<close>) and \<open>suggestions\<close> (empty), and the code of the exception as status. It
  passes neither \<open>job_roles\<close> nor \<open>job_field\<close>. Every page of the analysis route uses
  that template and is either the successful page, with status 200 and six names, or
  the error page with status 400.
\<close>

theorem error_page_contents:
  "((c = 400 \<or> c = 502) \<longrightarrow>
      dispatch (Inl (HTTPException c description)) = Response (handle_errors c description)) \<and>
   template (handle_errors c description) = ''results.html'' \<and>
   names (handle_errors c description) = [''score'', ''criteria'', ''errors'', ''suggestions''] \<and>
   passed (handle_errors c description) ''score'' = Some (JInt 0) \<and>
   passed (handle_errors c description) ''criteria'' = Some (JDict []) \<and>
   passed (handle_errors c description) ''errors'' =
     Some (JList [str_exc (HTTPException c description)]) \<and>
   passed (handle_errors c description) ''suggestions'' = Some (JList []) \<and>
   passed (handle_errors c description) ''job_roles'' = None \<and>
   passed (handle_errors c description) ''job_field'' = None \<and>
   status (handle_errors c description) = c \<and>
   (fst (get_analysis env filename) = Response r \<longrightarrow>
      template r = ''results.html'' \<and>
      (status r = 200 \<and>
         names r = [''score'', ''criteria'', ''errors'', ''suggestions'', ''job_roles'', ''job_field''] \<or>
       status r = 400 \<and> (\<exists>d. r = handle_errors 400 d)))"
proof -
  have route: "template r = ''results.html'' \<and>
      (status r = 200 \<and>
         names r = [''score'', ''criteria'', ''errors'', ''suggestions'', ''job_roles'', ''job_field''] \<or>
       status r = 400 \<and> (\<exists>d. r = handle_errors 400 d))"
    if r: "fst (get_analysis env filename) = Response r"
  proof -
    from get_analysis_response [OF r] consider
      (err) d where "r = handle_errors 400 d"
    | (ok) fname t has_photo where "filename = Some fname" "fname \<noteq> []"
        "extract_text_and_photo (libs env) (os_path_join (upload_folder env) fname) = Inr (t, has_photo)"
        "\<not> length (filter snd (detect_criteria t has_photo)) < 3"
      by blast
    then show ?thesis
    proof cases
      case err
      then show ?thesis by (auto simp: handle_errors_def)
    next
      case ok
      from analysis_extracted [OF ok(2) ok(3)] ok(1) ok(4) r
      show ?thesis by (auto simp: get_analysis_def names_def)
    qed
  qed
  show ?thesis
    using route by (auto simp: handle_errors_def names_def passed_def)
qed

text \<open>
  The error page for the code 502, and the error page of a request with no file name.
\<close>

theorem error_page_contents_witness:
  "dispatch (Inl (HTTPException 502 ''AI model error: timeout'')) =
     Response (handle_errors 502 ''AI model error: timeout'') \<and>
   passed (handle_errors 502 ''AI model error: timeout'') ''errors'' =
     Some (JList [''502 Bad Gateway: AI model error: timeout'']) \<and>
   status (handle_errors 502 ''AI model error: timeout'') = 502 \<and>
   fst (get_analysis (demo_env nothing_stored (reply_with twelve_items)) None) =
     Response (handle_errors 400 ''Filename missing'') \<and>
   status (handle_errors 400 ''Filename missing'') = 400"
proof -
  have g: "fst (get_analysis (demo_env nothing_stored (reply_with twelve_items)) None) =
     Response (handle_errors 400 ''Filename missing'')"
    by (simp add: get_analysis_def analysis_no_name)
  show ?thesis
    using g
      error_page_contents [of 502 "''AI model error: timeout''"
        "demo_env nothing_stored (reply_with twelve_items)" None
        "handle_errors 400 ''Filename missing''"]
    by (simp add: http_name_def handle_errors_def)
qed

text \<open>
  C6 as stated fails in one point: the names passed to the template by the error page
  are not those of a successful analysis, which passes \<open>job_roles\<close> and \<open>job_field\<close> too.
\<close>

theorem error_page_lacks_job_fields:
  "names (page (fst (get_analysis (demo_env (textract_gives three_criteria_text) (reply_with twelve_items))
      (Some ''cv.doc'')))) =
     [''score'', ''criteria'', ''errors'', ''suggestions'', ''job_roles'', ''job_field''] \<and>
   names (page (fst (get_analysis (demo_env (textract_gives three_criteria_text) (reply_with twelve_items))
      None))) =
     [''score'', ''criteria'', ''errors'', ''suggestions''] \<and>
   names (page (fst (get_analysis (demo_env (textract_gives three_criteria_text) (reply_with twelve_items))
      None))) \<noteq>
   names (page (fst (get_analysis (demo_env (textract_gives three_criteria_text) (reply_with twelve_items))
      (Some ''cv.doc''))))"
proof -
  have ne: "''cv.doc'' \<noteq> []" by simp
  show ?thesis
    using analysis_extracted [OF ne demo_three [of "reply_with twelve_items"]]
    by (simp add: get_analysis_def analysis_no_name names_def handle_errors_def count_three)
qed

text \<open>
  C7. The camel-case repair of line 81 is a function on all strings with no failing
  branch. Its result has no place left where a lower-case letter stands before an
  upper-case one, it turns \<open>SoftwareEngineer\<close> into \<open>Software Engineer\<close>, and applying it
  twice gives the same text as applying it once.
\<close>

theorem camel_case_idempotent:
  "camel_case (camel_case s) = camel_case s \<and>
   \<not> has_transition (camel_case s) \<and>
   camel_case ''SoftwareEngineer'' = ''Software Engineer''"
  by (simp add: camel_case_twice camel_case_no_transition is_ascii_lower_def
        is_ascii_upper_def code_def)

text \<open>
  C8. For every reply the list of suggestions returned by \<open>score_and_suggest\<close> and the
  list of job roles returned by \<open>recommend_jobs\<close> have at most five entries, and the
  list passed as \<open>errors\<close> by every page of the analysis route has at most ten.
\<close>

theorem lists_are_capped:
  "length (snd (fst (score_and_suggest gen text sent))) \<le> 5 \<and>
   length (fst (fst (recommend_jobs gen text sent))) \<le> 5 \<and>
   (fst (get_analysis env filename) = Response r \<longrightarrow>
      (\<exists>es. passed r ''errors'' = Some (JList es) \<and> length es \<le> 10))"
proof -
  have route: "\<exists>es. passed r ''errors'' = Some (JList es) \<and> length es \<le> 10"
    if r: "fst (get_analysis env filename) = Response r"
  proof -
    from get_analysis_response [OF r] consider
      (err) d where "r = handle_errors 400 d"
    | (ok) fname t has_photo where "filename = Some fname" "fname \<noteq> []"
        "extract_text_and_photo (libs env) (os_path_join (upload_folder env) fname) = Inr (t, has_photo)"
        "\<not> length (filter snd (detect_criteria t has_photo)) < 3"
      by blast
    then show ?thesis
    proof cases
      case err
      then show ?thesis by (simp add: handle_errors_def passed_def)
    next
      case ok
      from analysis_extracted [OF ok(2) ok(3)] ok(1) ok(4) r
      show ?thesis by (auto simp: get_analysis_def passed_def)
    qed
  qed
  show ?thesis
    using route by (simp add: score_and_suggest_eq recommend_jobs_eq)
qed

text \<open>
  A reply with eight dash lines gives five suggestions and five job roles; a reply with
  twelve dash lines gives ten grammar errors on the page.
\<close>

theorem lists_are_capped_witness:
  "fst (get_analysis (demo_env (textract_gives three_criteria_text) (reply_with twelve_items))
          (Some ''cv.doc'')) =
     Response (page (fst (get_analysis (demo_env (textract_gives three_criteria_text)
        (reply_with twelve_items)) (Some ''cv.doc'')))) \<and>
   passed (page (fst (get_analysis (demo_env (textract_gives three_criteria_text)
        (reply_with twelve_items)) (Some ''cv.doc'')))) ''errors'' =
     Some (JList [''a'', ''b'', ''c'', ''d'', ''e'', ''f'', ''g'', ''h'', ''i'', ''j'']) \<and>
   snd (fst (score_and_suggest (reply_with eight_items) ''resume'' [])) =
     [''a'', ''b'', ''c'', ''d'', ''e''] \<and>
   fst (fst (recommend_jobs (reply_with eight_items) ''resume'' [])) =
     [''a'', ''b'', ''c'', ''d'', ''e''] \<and>
   length (snd (fst (score_and_suggest (reply_with eight_items) ''resume'' []))) \<le> 5 \<and>
   length (fst (fst (recommend_jobs (reply_with eight_items) ''resume'' []))) \<le> 5"
proof -
  have ne: "''cv.doc'' \<noteq> []" by simp
  have a: "fst (get_analysis (demo_env (textract_gives three_criteria_text) (reply_with twelve_items))
          (Some ''cv.doc'')) =
     Response (page (fst (get_analysis (demo_env (textract_gives three_criteria_text)
        (reply_with twelve_items)) (Some ''cv.doc''))))"
    using analysis_extracted [OF ne demo_three [of "reply_with twelve_items"]]
    by (simp add: get_analysis_def count_three)
  have b: "passed (page (fst (get_analysis (demo_env (textract_gives three_criteria_text)
        (reply_with twelve_items)) (Some ''cv.doc'')))) ''errors'' =
     Some (JList [''a'', ''b'', ''c'', ''d'', ''e'', ''f'', ''g'', ''h'', ''i'', ''j''])"
    using analysis_extracted [OF ne demo_three [of "reply_with twelve_items"]]
    by (simp add: get_analysis_def count_three passed_def grammar_errors_eq ask_gemini_def
          demo_env_def reply_with_def twelve_items_def splitlines_def
          strip_def strip_chars_def strip_where_def char_classes)
  have c: "snd (fst (score_and_suggest (reply_with eight_items) ''resume'' [])) =
     [''a'', ''b'', ''c'', ''d'', ''e'']"
    by (simp add: score_and_suggest_eq ask_gemini_def reply_with_def eight_items_def splitlines_def
          strip_def strip_chars_def strip_where_def char_classes)
  have d: "fst (fst (recommend_jobs (reply_with eight_items) ''resume'' [])) =
     [''a'', ''b'', ''c'', ''d'', ''e'']"
    by (simp add: recommend_jobs_eq ask_gemini_def reply_with_def eight_items_def splitlines_def
          strip_def strip_chars_def strip_where_def char_classes)
  show ?thesis
    using a b c d
      lists_are_capped [of "reply_with eight_items" "''resume''" "[]"
        "demo_env (textract_gives three_criteria_text) (reply_with twelve_items)" "Some ''cv.doc''"
        "page (fst (get_analysis (demo_env (textract_gives three_criteria_text)
           (reply_with twelve_items)) (Some ''cv.doc'')))"]
    by simp
qed

text \<open>
  C9. When the file name is not empty and there is no file at the path built from it,
  the extraction raises, the view raises the same exception, no prompt is sent, and the
  exception leaves the application unhandled: the outcome is not a page, neither the
  one for status 400 nor the one for status 502.
\<close>

theorem missing_file_leaves_route_unhandled:
  assumes "fname \<noteq> []"
    and "no_file_at (libs env) (os_path_join (upload_folder env) fname)"
  shows "\<exists>e. extract_text_and_photo (libs env) (os_path_join (upload_folder env) fname) = Inl e \<and>
              analysis env (Some fname) = (Inl e, []) \<and>
              get_analysis env (Some fname) = (Unhandled e, [])"
proof -
  from extract_no_file [OF assms(2)] obtain e
    where e: "extract_text_and_photo (libs env) (os_path_join (upload_folder env) fname) = Inl e"
    by blast
  from extract_raises_no_http [OF e] have "dispatch (Inl e) = Unhandled e"
    by auto
  with analysis_raised [OF assms(1) e] e show ?thesis
    by (simp add: get_analysis_def)
qed

text \<open>
  With nothing stored, the request for \<open>cv.pdf\<close> ends in the exception of the library.
\<close>

theorem missing_file_leaves_route_unhandled_witness:
  "''cv.pdf'' \<noteq> [] \<and>
   no_file_at (libs (demo_env nothing_stored (reply_with twelve_items)))
     (os_path_join (upload_folder (demo_env nothing_stored (reply_with twelve_items))) ''cv.pdf'') \<and>
   get_analysis (demo_env nothing_stored (reply_with twelve_items)) (Some ''cv.pdf'') =
     (Unhandled (LibraryError ''No such file''), [])"
proof -
  have ne: "''cv.pdf'' \<noteq> []" by simp
  have nf: "no_file_at (libs (demo_env nothing_stored (reply_with twelve_items)))
     (os_path_join (upload_folder (demo_env nothing_stored (reply_with twelve_items))) ''cv.pdf'')"
    by (simp add: no_file_at_def demo_env_def nothing_stored_def)
  have ex: "extract_text_and_photo (libs (demo_env nothing_stored (reply_with twelve_items)))
     (os_path_join (upload_folder (demo_env nothing_stored (reply_with twelve_items))) ''cv.pdf'') =
     Inl (LibraryError ''No such file'')"
    by (simp add: demo_env_def nothing_stored_def os_path_join_def extract_text_and_photo_def
          path_ext_def lower_def char_classes)
  from missing_file_leaves_route_unhandled [OF ne nf] ex ne nf show ?thesis
    by auto
qed

text \<open>
  C10, as the code has it. Every suggestion, grammar error and job role is its reply
  line with the dashes and spaces at its two ends removed and, after that, the white
  space at the two ends of what is left removed. The line \<open>- item -\<close> gives \<open>item\<close>. A
  line made of dashes and spaces only gives the empty string, and it is a dash line,
  which takes one of the places of the list, exactly when it has a dash.
\<close>

theorem items_trimmed_twice:
  "fst (grammar_errors gen text sent) =
     map (\<lambda>ln. strip (strip_chars ''- '' ln))
       (filter (\<lambda>ln. startswith (strip ln) ''-'')
          (splitlines (fst (ask_gemini gen (grammar_prompt text) sent)))) \<and>
   snd (fst (score_and_suggest gen text sent)) =
     take 5 (map (\<lambda>ln. strip (strip_chars ''- '' ln))
       (filter (\<lambda>ln. startswith (strip ln) ''-'')
          (splitlines (fst (ask_gemini gen (score_prompt text) sent))))) \<and>
   fst (fst (recommend_jobs gen text sent)) =
     take 5 (map (\<lambda>ln. strip (strip_chars ''- '' ln))
       (filter (\<lambda>ln. startswith (strip ln) ''-'')
          (splitlines (fst (ask_gemini gen (jobs_prompt text) sent))))) \<and>
   strip (strip_chars ''- '' ''- item -'') = ''item'' \<and>
   strip (strip_chars ''- '' (filter (\<lambda>c. c = CHR ''-'' \<or> c = CHR '' '') s)) = [] \<and>
   startswith (strip (filter (\<lambda>c. c = CHR ''-'' \<or> c = CHR '' '') s)) ''-'' = (CHR ''-'' \<in> set s) \<and>
   fst (grammar_errors (reply_with ''- -\<newline>- item -'') text sent) = ['''', ''item'']"
proof -
  have a: "strip (strip_chars ''- '' ''- item -'') = ''item''"
    by (simp add: strip_def strip_chars_def strip_where_def char_classes)
  have b: "fst (grammar_errors (reply_with ''- -\<newline>- item -'') text sent) = ['''', ''item'']"
    by (simp add: grammar_errors_eq ask_gemini_def reply_with_def splitlines_def
        strip_def strip_chars_def strip_where_def char_classes)
  show ?thesis
    by (simp only: a b dash_space_item dash_space_line simp_thms)
       (simp add: grammar_errors_eq score_and_suggest_eq recommend_jobs_eq
          suggestions_loop_filter jobs_loop_char)
qed

text \<open>
  C10 as stated fails: for the line made of a dash, a tab and \<open>item\<close>, removing dashes and
  spaces leaves the tab and \<open>item\<close>, while the parsed item is \<open>item\<close>.
\<close>

theorem item_keeps_no_tab:
  "fst (grammar_errors (reply_with (CHR ''-'' # CHR 0x09 # ''item'')) ''resume'' []) = [''item''] \<and>
   strip_chars ''- '' (CHR ''-'' # CHR 0x09 # ''item'') = CHR 0x09 # ''item'' \<and>
   ''item'' \<noteq> CHR 0x09 # ''item''"
  by (simp add: grammar_errors_eq ask_gemini_def reply_with_def splitlines_def
        strip_def strip_chars_def strip_where_def char_classes)

end
